theory Spec2Isabelle
  imports Main
begin

section \<open>Values\<close>

text \<open>
  The service is five Express route handlers over one SQLite table. A field of a request
  body (\<open>req.body.title\<close> and so on) is absent, \<open>null\<close>, a boolean or a string:
  form fields parsed by \<open>upload.none()\<close> are strings, a JSON body parsed by
  \<open>express.json()\<close> adds \<open>null\<close> and booleans. Numbers and nested values, which
  the driver binds through floating point or \<open>toString\<close>, are not part of this model.
\<close>

datatype jsval = JUndefined | JNull | JBool bool | JStr string

text \<open>
  What the driver hands the engine for a \<open>?\<close> of a statement: \<open>NULL\<close>, an integer or a
  text.
\<close>

datatype param = PNull | PInt int | PText string

text \<open>
  What the table holds in a column: \<open>NULL\<close>, an \<open>INTEGER\<close>, a \<open>REAL\<close> or a \<open>TEXT\<close>.
  A \<open>REAL\<close> arises only where the engine reads a text as a floating-point number;
  \<open>SReal t\<close> is the \<open>REAL\<close> the engine reads from the text \<open>t\<close>. Its value is not
  computed here.
\<close>

datatype sqlval = SNull | SInt int | SReal string | SText string

record body =
  title :: jsval
  description :: jsval
  completed :: jsval

text \<open>
  A row of \<open>tasks\<close>:
  \<^verbatim>\<open>
  CREATE TABLE IF NOT EXISTS tasks (
    id INTEGER PRIMARY KEY AUTOINCREMENT,
    title TEXT NOT NULL,
    description TEXT,
    completed BOOLEAN DEFAULT 0
  )
  \<close>
\<close>

record task =
  row_id :: int
  row_title :: sqlval
  row_description :: sqlval
  row_completed :: sqlval

subsection \<open>Decimal text of an integer\<close>

text \<open>
  A client that reads \<open>id\<close> from a response and requests \<open>/tasks/<id>\<close> writes the
  number in decimal; the engine renders an integer stored in a \<open>TEXT\<close> column the same
  way.
\<close>

definition digit_char :: "nat \<Rightarrow> char" where
  "digit_char d = char_of (48 + d)"

fun digits :: "nat \<Rightarrow> string" where
  "digits n = (if n < 10 then [digit_char n] else digits (n div 10) @ [digit_char (n mod 10)])"

definition decimal :: "int \<Rightarrow> string" where
  "decimal n = (if n < 0 then CHR ''-'' # digits (nat (- n)) else digits (nat n))"

subsection \<open>Reading a text as a number\<close>

text \<open>
  Where the engine needs a number and has a text (a \<open>TEXT\<close> operand compared with the
  integer key, a text stored in the \<open>BOOLEAN\<close> column, whose affinity is \<open>NUMERIC\<close>), it
  tries to read the text as a number. An integer literal (white space, an optional sign,
  decimal digits, white space) is read as that integer.
\<close>

definition is_space :: "char \<Rightarrow> bool" where
  "is_space c \<longleftrightarrow> c = CHR '' '' \<or> (9 \<le> (of_char c :: nat) \<and> (of_char c :: nat) \<le> 13)"

definition is_digit :: "char \<Rightarrow> bool" where
  "is_digit c \<longleftrightarrow> 48 \<le> (of_char c :: nat) \<and> (of_char c :: nat) \<le> 57"

definition digit_val :: "char \<Rightarrow> nat" where
  "digit_val c = of_char c - 48"

definition nat_of_digits :: "string \<Rightarrow> nat" where
  "nat_of_digits cs = foldl (\<lambda>a c. 10 * a + digit_val c) 0 cs"

definition unsigned_literal :: "string \<Rightarrow> nat option" where
  "unsigned_literal v =
     (let ds = takeWhile is_digit v; rest = dropWhile is_digit v
      in if ds \<noteq> [] \<and> list_all is_space rest then Some (nat_of_digits ds) else None)"

definition int_literal :: "string \<Rightarrow> int option" where
  "int_literal t =
     (case dropWhile is_space t of
        [] \<Rightarrow> None
      | c # v \<Rightarrow>
          if c = CHR ''-'' then map_option (\<lambda>n. - int n) (unsigned_literal v)
          else if c = CHR ''+'' then map_option int (unsigned_literal v)
          else map_option int (unsigned_literal (c # v)))"

text \<open>
  A text with a character that no number has, or with no digit at all, is no number and
  stays a text.
\<close>

definition is_numeric_char :: "char \<Rightarrow> bool" where
  "is_numeric_char c \<longleftrightarrow>
     is_digit c \<or> is_space c \<or> c = CHR ''+'' \<or> c = CHR ''-'' \<or> c = CHR ''.'' \<or>
     c = CHR ''e'' \<or> c = CHR ''E''"

definition no_number :: "string \<Rightarrow> bool" where
  "no_number t \<longleftrightarrow> list_ex (\<lambda>c. \<not> is_numeric_char c) t \<or> \<not> list_ex is_digit t"

definition int64 :: "int \<Rightarrow> bool" where
  "int64 n \<longleftrightarrow> - (2 ^ 63) \<le> n \<and> n < 2 ^ 63"

text \<open>
  Every other text (one with a fraction or an exponent, digits beyond 64 bits, or some
  other arrangement of the characters of numbers) goes through the engine's
  floating-point reader. The engine is not part of this repository and its floating
  point is not modelled: the reader is a parameter \<open>rd\<close> of everything below, and what
  is proved holds for every reader. \<open>rd t\<close> is what the engine makes of \<open>t\<close>: \<open>SInt n\<close>
  when the number read is the integer \<open>n\<close> (\<open>1.0\<close>, \<open>1e2\<close>), \<open>SReal t\<close> when it is not
  (\<open>0.5\<close>), \<open>SText t\<close> when \<open>t\<close> is no number after all.
\<close>

type_synonym reader = "string \<Rightarrow> sqlval"

definition numeric_reading :: "reader \<Rightarrow> string \<Rightarrow> sqlval" where
  "numeric_reading rd t =
     (case int_literal t of
        Some n \<Rightarrow> if int64 n then SInt n else rd t
      | None \<Rightarrow> if no_number t then SText t else rd t)"

section \<open>The store\<close>

text \<open>
  The table in storage order (the order of the integer key, which is the order of
  insertion since every new key is larger than the keys present) and the
  \<open>AUTOINCREMENT\<close> counter kept by the engine: the largest key ever assigned. Keys are
  mathematical integers here; the engine's 64-bit ceiling, and the range in which a
  JavaScript number holds \<open>this.lastID\<close> exactly, are far from any store this service
  fills one row at a time.
\<close>

record db =
  rows :: "task list"
  seq :: int

definition init_db :: db where
  "init_db = \<lparr>rows = [], seq = 0\<rparr>"

text \<open>
  How the driver binds a JavaScript value to a \<open>?\<close>: a string as text, a boolean as the
  integer 1 or 0, \<open>null\<close> as \<open>NULL\<close>; an \<open>undefined\<close> parameter is left unbound,
  which the engine reads as \<open>NULL\<close>.
\<close>

fun bind :: "jsval \<Rightarrow> param" where
  "bind JUndefined = PNull"
| "bind JNull = PNull"
| "bind (JBool b) = PInt (if b then 1 else 0)"
| "bind (JStr t) = PText t"

text \<open>
  Column affinity, applied to a parameter before it is stored: a \<open>TEXT\<close> column turns an
  integer into its decimal text, the \<open>BOOLEAN\<close> column (affinity \<open>NUMERIC\<close>) turns a
  text into the number read from it, if it is one.
\<close>

fun text_affinity :: "param \<Rightarrow> sqlval" where
  "text_affinity PNull = SNull"
| "text_affinity (PInt n) = SText (decimal n)"
| "text_affinity (PText t) = SText t"

fun numeric_affinity :: "reader \<Rightarrow> param \<Rightarrow> sqlval" where
  "numeric_affinity rd PNull = SNull"
| "numeric_affinity rd (PInt n) = SInt n"
| "numeric_affinity rd (PText t) = numeric_reading rd t"

text \<open>
  \<open>WHERE id = ?\<close>: the key against the bound parameter. \<open>NULL\<close> equals nothing. A
  text parameter is read as a number first: an integer literal equals the key it
  denotes (one beyond 64 bits denotes no key of the table), any other text equals the
  key that the number read from it is.
\<close>

fun id_eq :: "reader \<Rightarrow> int \<Rightarrow> param \<Rightarrow> bool" where
  "id_eq rd n PNull = False"
| "id_eq rd n (PInt m) = (n = m)"
| "id_eq rd n (PText t) =
     (case int_literal t of Some m \<Rightarrow> n = m | None \<Rightarrow> numeric_reading rd t = SInt n)"

definition max_rowid :: "task list \<Rightarrow> int" where
  "max_rowid rs = fold max (map row_id rs) 0"

text \<open>
  The key of the next row under \<open>AUTOINCREMENT\<close>: one more than the largest key in the
  table and than the largest key ever assigned.
\<close>

definition next_rowid :: "db \<Rightarrow> int" where
  "next_rowid s = max (seq s) (max_rowid (rows s)) + 1"

definition not_null_title :: string where
  "not_null_title = ''SQLITE_CONSTRAINT: NOT NULL constraint failed: tasks.title''"

subsection \<open>The five statements\<close>

text \<open>
  Each driver call either fails, handing \<open>err\<close> to the callback (\<open>Inl err.message\<close>), or
  succeeds. A call fails when the storage cannot be accessed, which the environment
  decides (\<open>fault = Some message\<close>), or when the statement violates a constraint of the
  table; a failed statement changes nothing.
\<close>

text \<open>\<^verbatim>\<open>db.all('SELECT * FROM tasks', [], (err, rows) => ...)\<close>\<close>

definition db_all :: "string option \<Rightarrow> db \<Rightarrow> (string + task list) \<times> db" where
  "db_all fault s = (case fault of Some m \<Rightarrow> (Inl m, s) | None \<Rightarrow> (Inr (rows s), s))"

text \<open>
  \<^verbatim>\<open>db.get('SELECT * FROM tasks WHERE id = ?', [id], (err, row) => ...)\<close>:
  the first matching row, or \<open>undefined\<close> (\<open>None\<close>).
\<close>

definition db_get :: "reader \<Rightarrow> string option \<Rightarrow> jsval \<Rightarrow> db \<Rightarrow> (string + task option) \<times> db" where
  "db_get rd fault i s =
     (case fault of
        Some m \<Rightarrow> (Inl m, s)
      | None \<Rightarrow> (Inr (find (\<lambda>r. id_eq rd (row_id r) (bind i)) (rows s)), s))"

text \<open>
  \<^verbatim>\<open>db.run('INSERT INTO tasks (title, description, completed) VALUES (?, ?, ?)', params, function (err) ...)\<close>:
  on success \<open>this.lastID\<close> is the key of the new row.
\<close>

definition db_run_insert ::
  "reader \<Rightarrow> string option \<Rightarrow> jsval \<Rightarrow> jsval \<Rightarrow> jsval \<Rightarrow> db \<Rightarrow> (string + int) \<times> db" where
  "db_run_insert rd fault t d c s =
     (case fault of
        Some m \<Rightarrow> (Inl m, s)
      | None \<Rightarrow>
          if text_affinity (bind t) = SNull then (Inl not_null_title, s)
          else
            (Inr (next_rowid s),
             \<lparr>rows = rows s @
                [\<lparr>row_id = next_rowid s,
                  row_title = text_affinity (bind t),
                  row_description = text_affinity (bind d),
                  row_completed = numeric_affinity rd (bind c)\<rparr>],
              seq = next_rowid s\<rparr>))"

text \<open>
  \<^verbatim>\<open>db.run('UPDATE tasks SET title = ?, description = ?, completed = ? WHERE id = ?', params, function (err) ...)\<close>:
  on success \<open>this.changes\<close> is the number of rows the statement matched. The
  \<open>NOT NULL\<close> constraint is checked on each row that is written, so it fails only when
  a row matches.
\<close>

definition db_run_update ::
  "reader \<Rightarrow> string option \<Rightarrow> jsval \<Rightarrow> jsval \<Rightarrow> jsval \<Rightarrow> jsval \<Rightarrow> db \<Rightarrow> (string + nat) \<times> db" where
  "db_run_update rd fault t d c i s =
     (case fault of
        Some m \<Rightarrow> (Inl m, s)
      | None \<Rightarrow>
          if (\<exists>r \<in> set (rows s). id_eq rd (row_id r) (bind i)) \<and> text_affinity (bind t) = SNull
          then (Inl not_null_title, s)
          else
            (Inr (length (filter (\<lambda>r. id_eq rd (row_id r) (bind i)) (rows s))),
             s\<lparr>rows :=
                 map (\<lambda>r. if id_eq rd (row_id r) (bind i)
                          then r\<lparr>row_title := text_affinity (bind t),
                                 row_description := text_affinity (bind d),
                                 row_completed := numeric_affinity rd (bind c)\<rparr>
                          else r)
                   (rows s)\<rparr>))"

text \<open>
  \<^verbatim>\<open>db.run('DELETE FROM tasks WHERE id = ?', id, function (err) ...)\<close>:
  \<open>this.changes\<close> is the number of rows removed. The counter is not touched.
\<close>

definition db_run_delete :: "reader \<Rightarrow> string option \<Rightarrow> jsval \<Rightarrow> db \<Rightarrow> (string + nat) \<times> db" where
  "db_run_delete rd fault i s =
     (case fault of
        Some m \<Rightarrow> (Inl m, s)
      | None \<Rightarrow>
          (Inr (length (filter (\<lambda>r. id_eq rd (row_id r) (bind i)) (rows s))),
           s\<lparr>rows := filter (\<lambda>r. \<not> id_eq rd (row_id r) (bind i)) (rows s)\<rparr>))"

section \<open>The route handlers\<close>

text \<open>
  What \<open>res.json\<close> is given: \<open>{error}\<close>, \<open>{message}\<close>, the rows, one row, or the object
  \<open>{id, title, description, completed}\<close> built from the request. \<open>id\<close> in that object is
  the number \<open>this.lastID\<close> (create) or the path segment, a string (update).
\<close>

datatype idval = IdNum int | IdStr string

datatype payload =
  Error string
  | Message string
  | Rows "task list"
  | Row task
  | Echo idval jsval jsval jsval

record response =
  status :: nat
  payload :: payload

text \<open>
  \<^verbatim>\<open>
  app.get('/tasks', (req, res) => {
    db.all('SELECT * FROM tasks', [], (err, rows) => {
      if (err) { return res.status(500).json({ error: err.message }); }
      res.json(rows);
    });
  });
  \<close>
\<close>

definition get_tasks :: "string option \<Rightarrow> db \<Rightarrow> response \<times> db" where
  "get_tasks fault s =
     (case db_all fault s of
        (Inl m, s') \<Rightarrow> (\<lparr>status = 500, payload = Error m\<rparr>, s')
      | (Inr rs, s') \<Rightarrow> (\<lparr>status = 200, payload = Rows rs\<rparr>, s'))"

text \<open>
  \<^verbatim>\<open>
  app.post('/tasks', upload.none(), (req, res) => {
    const { title, description } = req.body;
    const params = [title, description, false];
    db.run(sql, params, function (err) {
      if (err) { return res.status(500).json({ error: err.message }); }
      res.json({ id: this.lastID, title, description, completed: false });
    });
  });
  \<close>
\<close>

definition post_tasks :: "reader \<Rightarrow> body \<Rightarrow> string option \<Rightarrow> db \<Rightarrow> response \<times> db" where
  "post_tasks rd b fault s =
     (case db_run_insert rd fault (title b) (description b) (JBool False) s of
        (Inl m, s') \<Rightarrow> (\<lparr>status = 500, payload = Error m\<rparr>, s')
      | (Inr lastID, s') \<Rightarrow>
          (\<lparr>status = 200,
            payload = Echo (IdNum lastID) (title b) (description b) (JBool False)\<rparr>, s'))"

text \<open>
  \<^verbatim>\<open>
  app.get('/tasks/:id', (req, res) => {
    const { id } = req.params;
    db.get('SELECT * FROM tasks WHERE id = ?', [id], (err, row) => {
      if (err) { return res.status(500).json({ error: err.message }); }
      if (!row) { return res.status(404).json({ message: 'Tarea no encontrada' }); }
      res.json(row);
    });
  });
  \<close>
\<close>

definition get_task :: "reader \<Rightarrow> string \<Rightarrow> string option \<Rightarrow> db \<Rightarrow> response \<times> db" where
  "get_task rd i fault s =
     (case db_get rd fault (JStr i) s of
        (Inl m, s') \<Rightarrow> (\<lparr>status = 500, payload = Error m\<rparr>, s')
      | (Inr None, s') \<Rightarrow> (\<lparr>status = 404, payload = Message ''Tarea no encontrada''\<rparr>, s')
      | (Inr (Some row), s') \<Rightarrow> (\<lparr>status = 200, payload = Row row\<rparr>, s'))"

text \<open>
  \<^verbatim>\<open>
  app.put('/tasks/:id', upload.none(), (req, res) => {
    const { id } = req.params;
    const { title, description, completed } = req.body;
    const params = [title, description, completed, id];
    db.run(sql, params, function (err) {
      if (err) { return res.status(500).json({ error: err.message }); }
      if (this.changes === 0) { return res.status(404).json({ message: 'Tarea no encontrada' }); }
      res.json({ id, title, description, completed });
    });
  });
  \<close>
\<close>

definition put_task :: "reader \<Rightarrow> string \<Rightarrow> body \<Rightarrow> string option \<Rightarrow> db \<Rightarrow> response \<times> db" where
  "put_task rd i b fault s =
     (case db_run_update rd fault (title b) (description b) (completed b) (JStr i) s of
        (Inl m, s') \<Rightarrow> (\<lparr>status = 500, payload = Error m\<rparr>, s')
      | (Inr changes, s') \<Rightarrow>
          if changes = 0 then (\<lparr>status = 404, payload = Message ''Tarea no encontrada''\<rparr>, s')
          else
            (\<lparr>status = 200,
              payload = Echo (IdStr i) (title b) (description b) (completed b)\<rparr>, s'))"

text \<open>
  \<^verbatim>\<open>
  app.delete('/tasks/:id', (req, res) => {
    const { id } = req.params;
    db.run('DELETE FROM tasks WHERE id = ?', id, function (err) {
      if (err) { return res.status(500).json({ error: err.message }); }
      if (this.changes === 0) { return res.status(404).json({ message: 'Tarea no encontrada' }); }
      res.json({ message: 'Tarea eliminada correctamente' });
    });
  });
  \<close>
\<close>

definition delete_task :: "reader \<Rightarrow> string \<Rightarrow> string option \<Rightarrow> db \<Rightarrow> response \<times> db" where
  "delete_task rd i fault s =
     (case db_run_delete rd fault (JStr i) s of
        (Inl m, s') \<Rightarrow> (\<lparr>status = 500, payload = Error m\<rparr>, s')
      | (Inr changes, s') \<Rightarrow>
          if changes = 0 then (\<lparr>status = 404, payload = Message ''Tarea no encontrada''\<rparr>, s')
          else (\<lparr>status = 200, payload = Message ''Tarea eliminada correctamente''\<rparr>, s'))"

subsection \<open>Sequences of requests\<close>

datatype request =
  GET_tasks
  | POST_tasks body
  | GET_task string
  | PUT_task string body
  | DELETE_task string

fun handle :: "reader \<Rightarrow> request \<Rightarrow> string option \<Rightarrow> db \<Rightarrow> response \<times> db" where
  "handle rd GET_tasks fault s = get_tasks fault s"
| "handle rd (POST_tasks b) fault s = post_tasks rd b fault s"
| "handle rd (GET_task i) fault s = get_task rd i fault s"
| "handle rd (PUT_task i b) fault s = put_task rd i b fault s"
| "handle rd (DELETE_task i) fault s = delete_task rd i fault s"

text \<open>The store after a sequence of requests, each with what the storage does to it.\<close>

fun final :: "reader \<Rightarrow> (request \<times> string option) list \<Rightarrow> db \<Rightarrow> db" where
  "final rd [] s = s"
| "final rd ((rq, fault) # ops) s = final rd ops (snd (handle rd rq fault s))"

text \<open>The id a response to a create request announces.\<close>

fun new_id :: "request \<Rightarrow> response \<Rightarrow> int list" where
  "new_id (POST_tasks b) r = (case payload r of Echo (IdNum n) _ _ _ \<Rightarrow> [n] | _ \<Rightarrow> [])"
| "new_id _ r = []"

text \<open>The ids announced by the successful creates of a sequence, in order.\<close>

fun created_ids :: "reader \<Rightarrow> (request \<times> string option) list \<Rightarrow> db \<Rightarrow> int list" where
  "created_ids rd [] s = []"
| "created_ids rd ((rq, fault) # ops) s =
     new_id rq (fst (handle rd rq fault s)) @ created_ids rd ops (snd (handle rd rq fault s))"

text \<open>
  What the primary key and the counter guarantee of a store: no two rows share a key,
  and no key is above the counter.
\<close>

definition wf_db :: "db \<Rightarrow> bool" where
  "wf_db s \<longleftrightarrow> distinct (map row_id (rows s)) \<and> (\<forall>r \<in> set (rows s). row_id r \<le> seq s)"

section \<open>Example requests and stores\<close>

definition milk :: body where
  "milk = \<lparr>title = JStr ''Buy milk'', description = JStr ''2%'', completed = JBool True\<rparr>"

text \<open>
  A reader for the examples. It knows three texts, as the engine reads them: \<open>1.0\<close> and
  \<open>3.0\<close> are the integers 1 and 3, \<open>0.5\<close> is a \<open>REAL\<close>.
\<close>

definition sample_reader :: reader where
  "sample_reader t =
     (if t = ''1.0'' then SInt 1
      else if t = ''3.0'' then SInt 3
      else if t = ''0.5'' then SReal ''0.5''
      else SText t)"

definition two_tasks :: db where
  "two_tasks =
     \<lparr>rows =
        [\<lparr>row_id = 1, row_title = SText ''Buy milk'', row_description = SText ''2%'',
          row_completed = SInt 0\<rparr>,
         \<lparr>row_id = 3, row_title = SText ''Call home'', row_description = SNull,
          row_completed = SInt 0\<rparr>],
      seq = 3\<rparr>"

definition session :: "(request \<times> string option) list" where
  "session =
     [(POST_tasks milk, None),
      (POST_tasks milk, None),
      (DELETE_task ''2'', None),
      (POST_tasks (milk\<lparr>title := JUndefined\<rparr>), None),
      (POST_tasks milk, Some ''SQLITE_BUSY: database is locked''),
      (PUT_task ''1'' (milk\<lparr>description := JUndefined\<rparr>), None),
      (POST_tasks milk, None),
      (GET_tasks, None)]"

section \<open>Auxiliary facts\<close>

declare digits.simps [simp del]

lemma digit_char_is_digit: "d < 10 \<Longrightarrow> is_digit (digit_char d)"
  by (simp add: is_digit_def digit_char_def)

lemma digit_val_digit_char: "d < 10 \<Longrightarrow> digit_val (digit_char d) = d"
  by (simp add: digit_val_def digit_char_def)

lemma digits_all_digit: "list_all is_digit (digits n)"
proof (induction n rule: digits.induct)
  case (1 n)
  show ?case
  proof (cases "n < 10")
    case True
    then show ?thesis by (subst digits.simps) (simp add: digit_char_is_digit)
  next
    case False
    with 1 show ?thesis by (subst digits.simps) (simp add: digit_char_is_digit)
  qed
qed

lemma digits_nonempty: "digits n \<noteq> []"
  by (subst digits.simps) simp

lemma nat_of_digits_snoc: "nat_of_digits (cs @ [c]) = 10 * nat_of_digits cs + digit_val c"
  by (simp add: nat_of_digits_def)

lemma nat_of_digits_digits: "nat_of_digits (digits n) = n"
proof (induction n rule: digits.induct)
  case (1 n)
  show ?case
  proof (cases "n < 10")
    case True
    then show ?thesis by (subst digits.simps) (simp add: nat_of_digits_def digit_val_digit_char)
  next
    case False
    then have "nat_of_digits (digits n) = 10 * nat_of_digits (digits (n div 10)) + digit_val (digit_char (n mod 10))"
      by (subst digits.simps) (simp add: nat_of_digits_snoc)
    with 1 False show ?thesis by (simp add: digit_val_digit_char)
  qed
qed

lemma is_digit_not_space: "is_digit c \<Longrightarrow> \<not> is_space c"
  by (auto simp: is_digit_def is_space_def)

lemma is_digit_not_sign: "is_digit c \<Longrightarrow> c \<noteq> CHR ''-'' \<and> c \<noteq> CHR ''+''"
  by (auto simp: is_digit_def)

lemma unsigned_literal_digits: "unsigned_literal (digits n) = Some n"
proof -
  have a: "\<forall>c\<in>set (digits n). is_digit c"
    using digits_all_digit [of n] by (simp add: list_all_iff)
  then have tw: "takeWhile is_digit (digits n) = digits n"
    and dw: "dropWhile is_digit (digits n) = []"
    by simp_all
  show ?thesis
    by (simp add: unsigned_literal_def Let_def tw dw digits_nonempty nat_of_digits_digits)
qed

lemma int_literal_decimal: "int_literal (decimal n) = Some n"
proof (cases "n < 0")
  case True
  then show ?thesis
    by (simp add: int_literal_def decimal_def is_space_def unsigned_literal_digits)
next
  case False
  obtain c v where cv: "digits (nat n) = c # v"
    using digits_nonempty [of "nat n"] by (cases "digits (nat n)") auto
  have "is_digit c"
    using digits_all_digit [of "nat n"] cv by simp
  then have "\<not> is_space c" "c \<noteq> CHR ''-''" "c \<noteq> CHR ''+''"
    using is_digit_not_space is_digit_not_sign by auto
  with False cv unsigned_literal_digits [of "nat n"] show ?thesis
    by (simp add: int_literal_def decimal_def)
qed

lemma fold_max_ge: "(a::int) \<le> fold max xs a"
proof (induction xs arbitrary: a)
  case Nil
  show ?case by simp
next
  case (Cons x xs)
  have "a \<le> max x a" by simp
  also have "\<dots> \<le> fold max xs (max x a)" by (rule Cons.IH)
  finally show ?case by simp
qed

lemma fold_max_mem: "x \<in> set xs \<Longrightarrow> (x::int) \<le> fold max xs a"
proof (induction xs arbitrary: a)
  case Nil
  then show ?case by simp
next
  case (Cons y ys)
  show ?case
  proof (cases "x = y")
    case True
    have "x \<le> max y a" using True by simp
    also have "\<dots> \<le> fold max ys (max y a)" by (rule fold_max_ge)
    finally show ?thesis by simp
  next
    case False
    with Cons.prems have "x \<in> set ys" by simp
    then show ?thesis using Cons.IH by simp
  qed
qed

lemma row_id_less_next: "r \<in> set (rows s) \<Longrightarrow> row_id r < next_rowid s"
proof -
  assume "r \<in> set (rows s)"
  then have "row_id r \<in> set (map row_id (rows s))" by simp
  then have "row_id r \<le> max_rowid (rows s)"
    unfolding max_rowid_def by (rule fold_max_mem)
  then show ?thesis by (simp add: next_rowid_def)
qed

lemma seq_less_next: "seq s < next_rowid s"
  by (simp add: next_rowid_def)

lemma find_fresh_snoc:
  "\<forall>r \<in> set rs. \<not> P r \<Longrightarrow> P x \<Longrightarrow> find P (rs @ [x]) = Some x"
  by (induction rs) auto

section \<open>Create\<close>

lemma post_tasks_ok:
  "text_affinity (bind (title b)) \<noteq> SNull \<Longrightarrow>
   post_tasks rd b None s =
     (\<lparr>status = 200,
       payload = Echo (IdNum (next_rowid s)) (title b) (description b) (JBool False)\<rparr>,
      \<lparr>rows = rows s @
         [\<lparr>row_id = next_rowid s,
           row_title = text_affinity (bind (title b)),
           row_description = text_affinity (bind (description b)),
           row_completed = SInt 0\<rparr>],
       seq = next_rowid s\<rparr>)"
  by (simp add: post_tasks_def db_run_insert_def)

lemma post_tasks_fault:
  "post_tasks rd b (Some m) s = (\<lparr>status = 500, payload = Error m\<rparr>, s)"
  by (simp add: post_tasks_def db_run_insert_def)

lemma post_tasks_null_title:
  "text_affinity (bind (title b)) = SNull \<Longrightarrow>
   post_tasks rd b None s = (\<lparr>status = 500, payload = Error not_null_title\<rparr>, s)"
  by (simp add: post_tasks_def db_run_insert_def)

lemma text_affinity_bind_null: "text_affinity (bind v) = SNull \<longleftrightarrow> v = JUndefined \<or> v = JNull"
  by (cases v) auto

lemma get_task_found:
  "find (\<lambda>r. id_eq rd (row_id r) (PText i)) (rows s) = Some r \<Longrightarrow>
   get_task rd i None s = (\<lparr>status = 200, payload = Row r\<rparr>, s)"
  by (simp add: get_task_def db_get_def)

lemma get_task_missing:
  "find (\<lambda>r. id_eq rd (row_id r) (PText i)) (rows s) = None \<Longrightarrow>
   get_task rd i None s = (\<lparr>status = 404, payload = Message ''Tarea no encontrada''\<rparr>, s)"
  by (simp add: get_task_def db_get_def)

text \<open>
  C1. A create request whose title and description are the strings \<open>t\<close> and \<open>d\<close>
  answers 200 with a new id, and reading \<open>/tasks/<id>\<close> with that id then answers 200
  with the row holding that id, \<open>t\<close>, \<open>d\<close> and \<open>completed\<close> 0, the store's false.
\<close>

theorem create_then_read:
  assumes "title b = JStr t" and "description b = JStr d"
  shows "\<exists>n. fst (post_tasks rd b None s) =
              \<lparr>status = 200, payload = Echo (IdNum n) (JStr t) (JStr d) (JBool False)\<rparr> \<and>
            fst (get_task rd (decimal n) None (snd (post_tasks rd b None s))) =
              \<lparr>status = 200,
               payload = Row \<lparr>row_id = n, row_title = SText t, row_description = SText d,
                              row_completed = SInt 0\<rparr>\<rparr>"
proof -
  let ?n = "next_rowid s"
  let ?r = "\<lparr>row_id = ?n, row_title = SText t, row_description = SText d,
             row_completed = SInt 0\<rparr>"
  have post: "post_tasks rd b None s =
      (\<lparr>status = 200, payload = Echo (IdNum ?n) (JStr t) (JStr d) (JBool False)\<rparr>,
       \<lparr>rows = rows s @ [?r], seq = ?n\<rparr>)"
    using post_tasks_ok [of b rd s] assms by simp
  have old: "\<forall>r \<in> set (rows s). \<not> id_eq rd (row_id r) (PText (decimal ?n))"
  proof
    fix r assume "r \<in> set (rows s)"
    then have "row_id r < ?n" by (rule row_id_less_next)
    then show "\<not> id_eq rd (row_id r) (PText (decimal ?n))"
      by (simp add: int_literal_decimal)
  qed
  have new: "id_eq rd (row_id ?r) (PText (decimal ?n))"
    by (simp add: int_literal_decimal)
  have "find (\<lambda>r. id_eq rd (row_id r) (PText (decimal ?n))) (rows s @ [?r]) = Some ?r"
    using old new by (rule find_fresh_snoc)
  then have "get_task rd (decimal ?n) None \<lparr>rows = rows s @ [?r], seq = ?n\<rparr> =
      (\<lparr>status = 200, payload = Row ?r\<rparr>, \<lparr>rows = rows s @ [?r], seq = ?n\<rparr>)"
    by (intro get_task_found) simp
  with post show ?thesis by simp
qed

theorem create_then_read_witness:
  "fst (post_tasks sample_reader milk None init_db) =
     \<lparr>status = 200, payload = Echo (IdNum 1) (JStr ''Buy milk'') (JStr ''2%'') (JBool False)\<rparr> \<and>
   fst (get_task sample_reader ''1'' None (snd (post_tasks sample_reader milk None init_db))) =
     \<lparr>status = 200,
      payload = Row \<lparr>row_id = 1, row_title = SText ''Buy milk'', row_description = SText ''2%'',
                     row_completed = SInt 0\<rparr>\<rparr>"
proof -
  have n: "next_rowid init_db = 1"
    by (simp add: next_rowid_def max_rowid_def init_db_def)
  have p: "fst (post_tasks sample_reader milk None init_db) =
     \<lparr>status = 200, payload = Echo (IdNum 1) (JStr ''Buy milk'') (JStr ''2%'') (JBool False)\<rparr>"
    by (simp add: post_tasks_ok milk_def n)
  have d: "decimal 1 = ''1''"
    by code_simp
  from create_then_read [of milk "''Buy milk''" "''2%''" sample_reader init_db]
  show ?thesis using p d by (auto simp: milk_def)
qed

text \<open>
  C2. The create handler never reads \<open>completed\<close> from the body. Whenever it answers
  200, the answer is the object made of the new id, the submitted title and description
  and \<open>completed: false\<close>, built from the request (an absent description stays
  \<open>undefined\<close> in it, where the row holds \<open>NULL\<close>), and the one row added holds
  \<open>completed\<close> 0. It answers 200 exactly when the storage is reachable and the title
  is neither absent nor \<open>null\<close>.
\<close>

theorem create_ignores_completed:
  "post_tasks rd (b\<lparr>completed := c\<rparr>) fault s = post_tasks rd b fault s \<and>
   (status (fst (post_tasks rd b fault s)) = 200 \<longleftrightarrow>
      fault = None \<and> title b \<noteq> JUndefined \<and> title b \<noteq> JNull) \<and>
   (status (fst (post_tasks rd b fault s)) = 200 \<longrightarrow>
      fst (post_tasks rd b fault s) =
        \<lparr>status = 200,
         payload = Echo (IdNum (next_rowid s)) (title b) (description b) (JBool False)\<rparr> \<and>
      rows (snd (post_tasks rd b fault s)) =
        rows s @
          [\<lparr>row_id = next_rowid s,
            row_title = text_affinity (bind (title b)),
            row_description = text_affinity (bind (description b)),
            row_completed = SInt 0\<rparr>])"
proof (intro conjI)
  show "post_tasks rd (b\<lparr>completed := c\<rparr>) fault s = post_tasks rd b fault s"
    by (simp add: post_tasks_def split: prod.split sum.split)
next
  show "status (fst (post_tasks rd b fault s)) = 200 \<longleftrightarrow>
      fault = None \<and> title b \<noteq> JUndefined \<and> title b \<noteq> JNull"
  proof (cases fault)
    case None
    show ?thesis
    proof (cases "text_affinity (bind (title b)) = SNull")
      case True
      with None show ?thesis
        using text_affinity_bind_null [of "title b"] by (auto simp: post_tasks_null_title)
    next
      case False
      with None show ?thesis
        using text_affinity_bind_null [of "title b"] by (auto simp: post_tasks_ok)
    qed
  next
    case (Some m)
    then show ?thesis by (simp add: post_tasks_fault)
  qed
next
  show "status (fst (post_tasks rd b fault s)) = 200 \<longrightarrow>
      fst (post_tasks rd b fault s) =
        \<lparr>status = 200,
         payload = Echo (IdNum (next_rowid s)) (title b) (description b) (JBool False)\<rparr> \<and>
      rows (snd (post_tasks rd b fault s)) =
        rows s @
          [\<lparr>row_id = next_rowid s,
            row_title = text_affinity (bind (title b)),
            row_description = text_affinity (bind (description b)),
            row_completed = SInt 0\<rparr>]"
  proof (cases fault)
    case None
    show ?thesis
    proof (cases "text_affinity (bind (title b)) = SNull")
      case True
      with None show ?thesis by (simp add: post_tasks_null_title)
    next
      case False
      with None show ?thesis by (simp add: post_tasks_ok)
    qed
  next
    case (Some m)
    then show ?thesis by (simp add: post_tasks_fault)
  qed
qed


theorem create_ignores_completed_witness:
  "post_tasks sample_reader (milk\<lparr>completed := JBool True\<rparr>) None init_db =
     post_tasks sample_reader (milk\<lparr>completed := JUndefined\<rparr>) None init_db \<and>
   status (fst (post_tasks sample_reader milk None init_db)) = 200 \<and>
   fst (post_tasks sample_reader milk None init_db) =
     \<lparr>status = 200, payload = Echo (IdNum 1) (JStr ''Buy milk'') (JStr ''2%'') (JBool False)\<rparr> \<and>
   rows (snd (post_tasks sample_reader milk None init_db)) =
     [\<lparr>row_id = 1, row_title = SText ''Buy milk'', row_description = SText ''2%'',
       row_completed = SInt 0\<rparr>]"
proof -
  have n: "next_rowid init_db = 1"
    by (simp add: next_rowid_def max_rowid_def init_db_def)
  have t: "title milk = JStr ''Buy milk''" "description milk = JStr ''2%''"
    by (simp_all add: milk_def)
  have r: "rows init_db = []"
    by (simp add: init_db_def)
  from create_ignores_completed [where rd = sample_reader and b = milk and c = "JBool True" and fault = None and s = init_db]
    create_ignores_completed [where rd = sample_reader and b = milk and c = JUndefined and fault = None and s = init_db]
  show ?thesis by (simp add: n t r)
qed

text \<open>
  C4 as stated fails: on the empty store a create request without a title is answered
  500 with the engine's constraint message, and nothing is stored.
\<close>

theorem create_without_title_counterexample:
  "post_tasks sample_reader \<lparr>title = JUndefined, description = JStr ''2%'', completed = JUndefined\<rparr> None init_db =
     (\<lparr>status = 500,
       payload = Error ''SQLITE_CONSTRAINT: NOT NULL constraint failed: tasks.title''\<rparr>,
      init_db)"
  by (simp add: post_tasks_def db_run_insert_def not_null_title_def)

text \<open>
  C4, amended. The handler validates nothing, and the table declares
  \<open>title TEXT NOT NULL\<close>: a create request whose title is absent or \<open>null\<close> is refused
  by the storage. The answer is 500 with the storage's message, and the store is
  unchanged.
\<close>

theorem create_without_title_rejected:
  assumes "title b = JUndefined \<or> title b = JNull"
  shows "status (fst (post_tasks rd b fault s)) = 500 \<and>
         (\<exists>m. payload (fst (post_tasks rd b fault s)) = Error m) \<and>
         (fault = None \<longrightarrow> payload (fst (post_tasks rd b fault s)) = Error not_null_title) \<and>
         snd (post_tasks rd b fault s) = s"
proof (cases fault)
  case None
  from assms have "text_affinity (bind (title b)) = SNull"
    by (simp add: text_affinity_bind_null)
  with None show ?thesis by (simp add: post_tasks_null_title)
next
  case (Some m)
  then show ?thesis by (simp add: post_tasks_fault)
qed

theorem create_without_title_rejected_witness:
  "status (fst (post_tasks sample_reader \<lparr>title = JNull, description = JStr ''2%'', completed = JUndefined\<rparr> None init_db)) = 500 \<and>
   payload (fst (post_tasks sample_reader \<lparr>title = JNull, description = JStr ''2%'', completed = JUndefined\<rparr> None init_db)) =
     Error not_null_title \<and>
   snd (post_tasks sample_reader \<lparr>title = JNull, description = JStr ''2%'', completed = JUndefined\<rparr> None init_db) = init_db"
  using create_without_title_rejected
    [where b = "\<lparr>title = JNull, description = JStr ''2%'', completed = JUndefined\<rparr>"
       and rd = sample_reader and fault = None and s = init_db]
  by simp

section \<open>List\<close>

text \<open>
  C9. The list handler takes nothing from the request. When the storage answers, it
  answers 200 with every row, in storage order; when the storage fails, it answers 500
  with the storage's message and no rows. In both cases the store is unchanged.
\<close>

theorem list_all_rows:
  "get_tasks None s = (\<lparr>status = 200, payload = Rows (rows s)\<rparr>, s) \<and>
   get_tasks (Some m) s = (\<lparr>status = 500, payload = Error m\<rparr>, s)"
  by (simp add: get_tasks_def db_all_def)

section \<open>Read, update and delete of an id that is not there\<close>

lemma get_task_fault: "get_task rd i (Some m) s = (\<lparr>status = 500, payload = Error m\<rparr>, s)"
  by (simp add: get_task_def db_get_def)

lemma put_task_fault: "put_task rd i b (Some m) s = (\<lparr>status = 500, payload = Error m\<rparr>, s)"
  by (simp add: put_task_def db_run_update_def)

lemma delete_task_fault: "delete_task rd i (Some m) s = (\<lparr>status = 500, payload = Error m\<rparr>, s)"
  by (simp add: delete_task_def db_run_delete_def)

lemma find_no_match: "\<forall>r \<in> set rs. \<not> P r \<Longrightarrow> find P rs = None"
  by (simp add: find_None_iff)

lemma filter_no_match: "\<forall>r \<in> set rs. \<not> P r \<Longrightarrow> filter P rs = []"
  by (simp add: filter_empty_conv)

lemma filter_keep_all: "\<forall>r \<in> set rs. \<not> P r \<Longrightarrow> filter (\<lambda>r. \<not> P r) rs = rs"
  by (simp add: filter_id_conv)

lemma map_no_match: "\<forall>r \<in> set rs. \<not> P r \<Longrightarrow> map (\<lambda>r. if P r then f r else r) rs = rs"
  by (simp add: map_idI)

lemma db_get_no_match:
  "\<forall>r \<in> set (rows s). \<not> id_eq rd (row_id r) (PText i) \<Longrightarrow> db_get rd None (JStr i) s = (Inr None, s)"
  by (simp add: db_get_def find_no_match)

lemma db_run_update_no_match:
  assumes "\<forall>r \<in> set (rows s). \<not> id_eq rd (row_id r) (PText i)"
  shows "db_run_update rd None t d c (JStr i) s = (Inr 0, s)"
proof -
  have "filter (\<lambda>r. id_eq rd (row_id r) (PText i)) (rows s) = []"
    using assms by (rule filter_no_match)
  moreover have "map (\<lambda>r. if id_eq rd (row_id r) (PText i)
                          then r\<lparr>row_title := text_affinity (bind t),
                                 row_description := text_affinity (bind d),
                                 row_completed := numeric_affinity rd (bind c)\<rparr>
                          else r) (rows s) = rows s"
    using assms by (rule map_no_match)
  ultimately show ?thesis using assms by (simp add: db_run_update_def)
qed

lemma db_run_delete_no_match:
  assumes "\<forall>r \<in> set (rows s). \<not> id_eq rd (row_id r) (PText i)"
  shows "db_run_delete rd None (JStr i) s = (Inr 0, s)"
proof -
  have "filter (\<lambda>r. id_eq rd (row_id r) (PText i)) (rows s) = []"
    using assms by (rule filter_no_match)
  moreover have "filter (\<lambda>r. \<not> id_eq rd (row_id r) (PText i)) (rows s) = rows s"
    using assms by (rule filter_keep_all)
  ultimately show ?thesis by (simp add: db_run_delete_def)
qed

text \<open>
  C5. When no row of the table matches the id of the path, as the engine compares the
  two and whatever its reader makes of the path, then read, update (whatever the body)
  and delete each answer 404 with the message \<open>Tarea no encontrada\<close> and leave the store
  as it is, provided the storage itself answers: the read finds no row, the update and
  the delete report zero changes. A storage failure is answered differently, 500 with
  the storage's message.
\<close>

theorem missing_id_not_found:
  assumes "\<forall>r \<in> set (rows s). \<not> id_eq rd (row_id r) (PText i)"
  shows "get_task rd i None s = (\<lparr>status = 404, payload = Message ''Tarea no encontrada''\<rparr>, s) \<and>
         put_task rd i b None s = (\<lparr>status = 404, payload = Message ''Tarea no encontrada''\<rparr>, s) \<and>
         delete_task rd i None s = (\<lparr>status = 404, payload = Message ''Tarea no encontrada''\<rparr>, s) \<and>
         fst (db_get rd None (JStr i) s) = Inr None \<and>
         fst (db_run_update rd None (title b) (description b) (completed b) (JStr i) s) = Inr 0 \<and>
         fst (db_run_delete rd None (JStr i) s) = Inr 0 \<and>
         get_task rd i (Some m) s = (\<lparr>status = 500, payload = Error m\<rparr>, s) \<and>
         put_task rd i b (Some m) s = (\<lparr>status = 500, payload = Error m\<rparr>, s) \<and>
         delete_task rd i (Some m) s = (\<lparr>status = 500, payload = Error m\<rparr>, s)"
proof -
  note g = db_get_no_match [OF assms]
  note u = db_run_update_no_match [OF assms, where t = "title b" and d = "description b" and c = "completed b"]
  note d = db_run_delete_no_match [OF assms]
  have "get_task rd i None s = (\<lparr>status = 404, payload = Message ''Tarea no encontrada''\<rparr>, s)"
    by (simp add: get_task_def g)
  moreover have "put_task rd i b None s = (\<lparr>status = 404, payload = Message ''Tarea no encontrada''\<rparr>, s)"
    by (simp add: put_task_def u)
  moreover have "delete_task rd i None s = (\<lparr>status = 404, payload = Message ''Tarea no encontrada''\<rparr>, s)"
    by (simp add: delete_task_def d)
  ultimately show ?thesis
    by (simp add: g u d get_task_fault put_task_fault delete_task_fault)
qed

lemma two_tasks_no_2: "\<forall>r \<in> set (rows two_tasks). \<not> id_eq rd (row_id r) (PText ''2'')"
  by code_simp

theorem missing_id_not_found_witness:
  "find (\<lambda>r. id_eq sample_reader (row_id r) (PText ''2'')) (rows two_tasks) = None \<and>
   get_task sample_reader ''2'' None two_tasks =
     (\<lparr>status = 404, payload = Message ''Tarea no encontrada''\<rparr>, two_tasks) \<and>
   put_task sample_reader ''2'' milk None two_tasks =
     (\<lparr>status = 404, payload = Message ''Tarea no encontrada''\<rparr>, two_tasks) \<and>
   delete_task sample_reader ''2'' None two_tasks =
     (\<lparr>status = 404, payload = Message ''Tarea no encontrada''\<rparr>, two_tasks) \<and>
   get_task sample_reader ''2'' (Some ''SQLITE_BUSY: database is locked'') two_tasks =
     (\<lparr>status = 500, payload = Error ''SQLITE_BUSY: database is locked''\<rparr>, two_tasks)"
  using find_no_match [OF two_tasks_no_2]
    missing_id_not_found [OF two_tasks_no_2, where b = milk and m = "''SQLITE_BUSY: database is locked''"]
  by simp

section \<open>Delete\<close>

lemma filter_match_nonempty: "r \<in> set rs \<Longrightarrow> P r \<Longrightarrow> length (filter P rs) \<noteq> 0"
  by (auto simp: filter_empty_conv)

lemma delete_task_ok:
  assumes "r \<in> set (rows s)" and "id_eq rd (row_id r) (PText i)"
  shows "delete_task rd i None s =
           (\<lparr>status = 200, payload = Message ''Tarea eliminada correctamente''\<rparr>,
            s\<lparr>rows := filter (\<lambda>r. \<not> id_eq rd (row_id r) (PText i)) (rows s)\<rparr>)"
proof -
  have "length (filter (\<lambda>r. id_eq rd (row_id r) (PText i)) (rows s)) \<noteq> 0"
    using assms by (rule filter_match_nonempty)
  then show ?thesis by (simp add: delete_task_def db_run_delete_def)
qed

text \<open>
  C6. Deleting a stored row by its id answers 200 with the message
  \<open>Tarea eliminada correctamente\<close>. Afterwards a read of that id answers 404, the list
  is the former list without the rows of that id, and no row of that id is left in the
  table.
\<close>

theorem delete_then_gone:
  assumes "r \<in> set (rows s)"
  shows "fst (delete_task rd (decimal (row_id r)) None s) =
           \<lparr>status = 200, payload = Message ''Tarea eliminada correctamente''\<rparr> \<and>
         fst (get_task rd (decimal (row_id r)) None (snd (delete_task rd (decimal (row_id r)) None s))) =
           \<lparr>status = 404, payload = Message ''Tarea no encontrada''\<rparr> \<and>
         fst (get_tasks None (snd (delete_task rd (decimal (row_id r)) None s))) =
           \<lparr>status = 200, payload = Rows (filter (\<lambda>x. row_id x \<noteq> row_id r) (rows s))\<rparr> \<and>
         (\<forall>x \<in> set (rows (snd (delete_task rd (decimal (row_id r)) None s))). row_id x \<noteq> row_id r)"
proof -
  let ?i = "decimal (row_id r)"
  let ?s' = "s\<lparr>rows := filter (\<lambda>x. row_id x \<noteq> row_id r) (rows s)\<rparr>"
  have "id_eq rd (row_id r) (PText ?i)"
    by (simp add: int_literal_decimal)
  with assms have "delete_task rd ?i None s =
      (\<lparr>status = 200, payload = Message ''Tarea eliminada correctamente''\<rparr>,
       s\<lparr>rows := filter (\<lambda>x. \<not> id_eq rd (row_id x) (PText ?i)) (rows s)\<rparr>)"
    by (rule delete_task_ok)
  then have del: "delete_task rd ?i None s =
      (\<lparr>status = 200, payload = Message ''Tarea eliminada correctamente''\<rparr>, ?s')"
    by (simp add: int_literal_decimal)
  have gone: "\<forall>x \<in> set (rows ?s'). \<not> id_eq rd (row_id x) (PText ?i)"
    by (simp add: int_literal_decimal)
  have "find (\<lambda>x. id_eq rd (row_id x) (PText ?i)) (rows ?s') = None"
    using gone by (rule find_no_match)
  then have get: "get_task rd ?i None ?s' =
      (\<lparr>status = 404, payload = Message ''Tarea no encontrada''\<rparr>, ?s')"
    by (rule get_task_missing)
  have lst: "get_tasks None ?s' = (\<lparr>status = 200, payload = Rows (rows ?s')\<rparr>, ?s')"
    by (simp add: get_tasks_def db_all_def)
  show ?thesis
    by (simp add: del get lst)
qed

lemma decimal_1: "decimal 1 = ''1''"
  by code_simp

lemma decimal_3: "decimal 3 = ''3''"
  by code_simp

theorem delete_then_gone_witness:
  "\<lparr>row_id = 1, row_title = SText ''Buy milk'', row_description = SText ''2%'',
     row_completed = SInt 0\<rparr> \<in> set (rows two_tasks) \<and>
   fst (delete_task sample_reader ''1'' None two_tasks) =
     \<lparr>status = 200, payload = Message ''Tarea eliminada correctamente''\<rparr> \<and>
   fst (get_task sample_reader ''1'' None (snd (delete_task sample_reader ''1'' None two_tasks))) =
     \<lparr>status = 404, payload = Message ''Tarea no encontrada''\<rparr> \<and>
   fst (get_tasks None (snd (delete_task sample_reader ''1'' None two_tasks))) =
     \<lparr>status = 200,
      payload = Rows [\<lparr>row_id = 3, row_title = SText ''Call home'', row_description = SNull,
                        row_completed = SInt 0\<rparr>]\<rparr>"
proof -
  have m: "\<lparr>row_id = 1, row_title = SText ''Buy milk'', row_description = SText ''2%'',
     row_completed = SInt 0\<rparr> \<in> set (rows two_tasks)"
    by (simp add: two_tasks_def)
  have f: "filter (\<lambda>x. row_id x \<noteq> 1) (rows two_tasks) =
      [\<lparr>row_id = 3, row_title = SText ''Call home'', row_description = SNull,
        row_completed = SInt 0\<rparr>]"
    by (simp add: two_tasks_def)
  from delete_then_gone [OF m] show ?thesis
    using m by (simp add: decimal_1 f)
qed

section \<open>Paths and values that are real literals\<close>

text \<open>
  With a reader that reads \<open>1.0\<close> and \<open>3.0\<close> as the integers 1 and 3, as the engine
  does, the paths \<open>/tasks/1.0\<close> and \<open>/tasks/3.0\<close> are the rows of id 1 and 3: the
  row is read, deleted and updated under that path. A text \<open>1.0\<close> given for
  \<open>completed\<close> is stored as what the reader makes of it, and so are digits beyond 64
  bits.
\<close>

lemma real_literal_1: "int_literal ''1.0'' = None" "\<not> no_number ''1.0''"
  by code_simp+

lemma real_literal_path_read:
  assumes "rd ''1.0'' = SInt 1"
  shows "fst (get_task rd ''1.0'' None two_tasks) =
           \<lparr>status = 200,
            payload = Row \<lparr>row_id = 1, row_title = SText ''Buy milk'',
                           row_description = SText ''2%'', row_completed = SInt 0\<rparr>\<rparr>"
  using assms
  by (simp add: get_task_def db_get_def two_tasks_def numeric_reading_def real_literal_1)

lemma real_literal_path_delete:
  assumes "rd ''1.0'' = SInt 1"
  shows "delete_task rd ''1.0'' None two_tasks =
           (\<lparr>status = 200, payload = Message ''Tarea eliminada correctamente''\<rparr>,
            \<lparr>rows = [\<lparr>row_id = 3, row_title = SText ''Call home'', row_description = SNull,
                       row_completed = SInt 0\<rparr>],
             seq = 3\<rparr>)"
  using assms
  by (simp add: delete_task_def db_run_delete_def two_tasks_def numeric_reading_def
      real_literal_1)

lemma real_literal_3: "int_literal ''3.0'' = None" "\<not> no_number ''3.0''"
  by code_simp+

lemma real_literal_path_update:
  assumes "rd ''3.0'' = SInt 3"
  shows "put_task rd ''3.0'' milk None two_tasks =
           (\<lparr>status = 200,
             payload = Echo (IdStr ''3.0'') (JStr ''Buy milk'') (JStr ''2%'') (JBool True)\<rparr>,
            \<lparr>rows =
               [\<lparr>row_id = 1, row_title = SText ''Buy milk'', row_description = SText ''2%'',
                 row_completed = SInt 0\<rparr>,
                \<lparr>row_id = 3, row_title = SText ''Buy milk'', row_description = SText ''2%'',
                 row_completed = SInt 1\<rparr>],
             seq = 3\<rparr>)"
  using assms
  by (simp add: put_task_def db_run_update_def two_tasks_def milk_def numeric_reading_def
      real_literal_3)

lemma real_literal_completed:
  "numeric_affinity rd (bind (JStr ''1.0'')) = rd ''1.0''"
  "numeric_affinity rd (bind (JStr ''100000000000000000000'')) = rd ''100000000000000000000''"
proof -
  show "numeric_affinity rd (bind (JStr ''1.0'')) = rd ''1.0''"
    by (simp add: numeric_reading_def real_literal_1)
  have "int_literal ''100000000000000000000'' = Some 100000000000000000000"
    by (simp add: int_literal_def unsigned_literal_def nat_of_digits_def is_space_def
        is_digit_def digit_val_def)
  then show "numeric_affinity rd (bind (JStr ''100000000000000000000'')) =
      rd ''100000000000000000000''"
    by (simp add: numeric_reading_def int64_def)
qed

section \<open>Update\<close>

lemma put_task_ok:
  assumes "r \<in> set (rows s)" and "id_eq rd (row_id r) (PText i)"
    and "text_affinity (bind (title b)) \<noteq> SNull"
  shows "put_task rd i b None s =
           (\<lparr>status = 200, payload = Echo (IdStr i) (title b) (description b) (completed b)\<rparr>,
            s\<lparr>rows :=
                map (\<lambda>r. if id_eq rd (row_id r) (PText i)
                         then r\<lparr>row_title := text_affinity (bind (title b)),
                                row_description := text_affinity (bind (description b)),
                                row_completed := numeric_affinity rd (bind (completed b))\<rparr>
                         else r)
                  (rows s)\<rparr>)"
proof -
  have "length (filter (\<lambda>r. id_eq rd (row_id r) (PText i)) (rows s)) \<noteq> 0"
    using assms(1,2) by (rule filter_match_nonempty)
  then show ?thesis using assms(3) by (simp add: put_task_def db_run_update_def)
qed

lemma put_task_null_title:
  assumes "r \<in> set (rows s)" and "id_eq rd (row_id r) (PText i)"
    and "text_affinity (bind (title b)) = SNull"
  shows "put_task rd i b None s = (\<lparr>status = 500, payload = Error not_null_title\<rparr>, s)"
  using assms by (auto simp: put_task_def db_run_update_def)

lemma put_task_cases:
  "snd (put_task rd i b fault s) = s \<or>
   snd (put_task rd i b fault s) =
     s\<lparr>rows :=
         map (\<lambda>r. if id_eq rd (row_id r) (PText i)
                  then r\<lparr>row_title := text_affinity (bind (title b)),
                         row_description := text_affinity (bind (description b)),
                         row_completed := numeric_affinity rd (bind (completed b))\<rparr>
                  else r)
           (rows s)\<rparr>"
  by (cases fault) (simp_all add: put_task_def db_run_update_def)

lemma find_map_same_key:
  "(\<And>x. P (f x) = P x) \<Longrightarrow> find P (map f xs) = map_option f (find P xs)"
  by (induction xs) auto

lemma find_member: "x \<in> set xs \<Longrightarrow> P x \<Longrightarrow> \<exists>y. find P xs = Some y \<and> P y"
  by (induction xs) auto


text \<open>
  The table has no boolean type. The boolean \<open>true\<close> of a JSON body is bound as the
  integer 1 and read back as 1; the form field \<open>true\<close> is a text that is no number,
  so it is stored and read back as that text.
\<close>

lemma completed_true_stored:
  "numeric_affinity rd (bind (JBool True)) = SInt 1"
  "numeric_affinity rd (bind (JStr ''true'')) = SText ''true''"
  by code_simp+

text \<open>
  C7 as stated fails: on a store that holds a row of id 3 with \<open>completed\<close> 0, an update
  of id 3 that carries \<open>completed: true\<close> and nothing else is refused for its missing
  title, and a read of id 3 afterwards still shows \<open>completed\<close> 0. The path is an
  integer literal, so the reader is not consulted.
\<close>

theorem update_completed_only_counterexample:
  "fst (get_task sample_reader ''3'' None
         (snd (put_task sample_reader ''3''
                \<lparr>title = JUndefined, description = JUndefined, completed = JBool True\<rparr>
                None two_tasks))) =
     \<lparr>status = 200,
      payload = Row \<lparr>row_id = 3, row_title = SText ''Call home'', row_description = SNull,
                     row_completed = SInt 0\<rparr>\<rparr>"
  by code_simp

text \<open>
  C7, amended. An update of a stored row's id that reaches the storage, has a title
  (neither absent nor \<open>null\<close>) and carries \<open>completed\<close> true is answered 200, and a read
  of that id afterwards answers 200 with a row of that id whose \<open>completed\<close> is true as
  the table holds it: the integer 1 when the body had the boolean \<open>true\<close>, the text
  \<open>true\<close> when it had the form field \<open>true\<close>.
\<close>

theorem update_completed_then_read:
  assumes "r \<in> set (rows s)"
    and "title b \<noteq> JUndefined" and "title b \<noteq> JNull"
    and "completed b = JBool True \<or> completed b = JStr ''true''"
  shows "fst (put_task rd (decimal (row_id r)) b None s) =
           \<lparr>status = 200,
            payload = Echo (IdStr (decimal (row_id r))) (title b) (description b) (completed b)\<rparr> \<and>
         (\<exists>r'. fst (get_task rd (decimal (row_id r)) None
                      (snd (put_task rd (decimal (row_id r)) b None s))) =
                  \<lparr>status = 200, payload = Row r'\<rparr> \<and>
                row_id r' = row_id r \<and>
                row_completed r' = (if completed b = JBool True then SInt 1 else SText ''true''))"
proof -
  let ?i = "decimal (row_id r)"
  let ?P = "\<lambda>x. id_eq rd (row_id x) (PText ?i)"
  let ?f = "\<lambda>x. if ?P x
                 then x\<lparr>row_title := text_affinity (bind (title b)),
                        row_description := text_affinity (bind (description b)),
                        row_completed := numeric_affinity rd (bind (completed b))\<rparr>
                 else x"
  have hit: "?P r"
    by (simp add: int_literal_decimal)
  have nn: "text_affinity (bind (title b)) \<noteq> SNull"
    using assms(2,3) by (simp add: text_affinity_bind_null)
  have put: "put_task rd ?i b None s =
      (\<lparr>status = 200, payload = Echo (IdStr ?i) (title b) (description b) (completed b)\<rparr>,
       s\<lparr>rows := map ?f (rows s)\<rparr>)"
    using assms(1) hit nn by (rule put_task_ok)
  obtain y where y: "find ?P (rows s) = Some y" "?P y"
    using find_member [of r "rows s" ?P] assms(1) hit by blast
  have "find ?P (map ?f (rows s)) = map_option ?f (find ?P (rows s))"
    by (rule find_map_same_key) (simp add: int_literal_decimal)
  with y have found: "find ?P (rows (s\<lparr>rows := map ?f (rows s)\<rparr>)) = Some (?f y)"
    by simp
  have get: "get_task rd ?i None (s\<lparr>rows := map ?f (rows s)\<rparr>) =
      (\<lparr>status = 200, payload = Row (?f y)\<rparr>, s\<lparr>rows := map ?f (rows s)\<rparr>)"
    using found by (rule get_task_found)
  have "row_id (?f y) = row_id r"
    using y(2) by (simp add: int_literal_decimal)
  moreover have "row_completed (?f y) =
      (if completed b = JBool True then SInt 1 else SText ''true'')"
    using y(2) assms(4) completed_true_stored [of rd] by auto
  ultimately show ?thesis
    using put get by auto
qed

theorem update_completed_then_read_witness:
  "fst (put_task sample_reader ''3'' milk None two_tasks) =
     \<lparr>status = 200, payload = Echo (IdStr ''3'') (JStr ''Buy milk'') (JStr ''2%'') (JBool True)\<rparr> \<and>
   (\<exists>r'. fst (get_task sample_reader ''3'' None
                (snd (put_task sample_reader ''3'' milk None two_tasks))) =
            \<lparr>status = 200, payload = Row r'\<rparr> \<and>
          row_id r' = 3 \<and> row_completed r' = SInt 1)"
proof -
  let ?r = "\<lparr>row_id = 3, row_title = SText ''Call home'', row_description = SNull,
             row_completed = SInt 0\<rparr>"
  have m: "?r \<in> set (rows two_tasks)"
    by (simp add: two_tasks_def)
  have c: "title milk = JStr ''Buy milk''" "description milk = JStr ''2%''"
    "completed milk = JBool True"
    by (simp_all add: milk_def)
  from update_completed_then_read [where r = ?r and s = two_tasks and b = milk
      and rd = sample_reader] m c
  show ?thesis by (simp add: decimal_3)
qed

text \<open>
  C3 as stated fails: on a store that holds a row of id 3, an update of id 3 whose body
  has no title is answered 500 and overwrites nothing, the submitted description and
  \<open>completed\<close> included.
\<close>

theorem update_without_title_counterexample:
  "put_task sample_reader ''3'' \<lparr>title = JUndefined, description = JStr ''2%'', completed = JBool True\<rparr> None
     two_tasks =
     (\<lparr>status = 500,
       payload = Error ''SQLITE_CONSTRAINT: NOT NULL constraint failed: tasks.title''\<rparr>,
      two_tasks)"
  by code_simp

text \<open>
  C3, amended. An update that reaches the storage and matches a stored row replaces, it
  does not merge, as long as the body has a title: the answer is 200 with the submitted
  fields, and the row keeps its id and holds the three submitted values as the columns
  store them (a text given for \<open>completed\<close> as the number the engine reads from it, if
  it is one), an absent description or \<open>completed\<close> as \<open>NULL\<close>. When the title is
  absent or \<open>null\<close> the table's \<open>NOT NULL\<close> refuses the statement: the answer is 500
  and the store is unchanged.
\<close>

theorem update_full_replace:
  assumes "k < length (rows s)" and "id_eq rd (row_id (rows s ! k)) (PText i)"
  shows "(title b \<noteq> JUndefined \<and> title b \<noteq> JNull \<longrightarrow>
            fst (put_task rd i b None s) =
              \<lparr>status = 200,
               payload = Echo (IdStr i) (title b) (description b) (completed b)\<rparr> \<and>
            rows (snd (put_task rd i b None s)) ! k =
              \<lparr>row_id = row_id (rows s ! k),
               row_title = text_affinity (bind (title b)),
               row_description = text_affinity (bind (description b)),
               row_completed = numeric_affinity rd (bind (completed b))\<rparr> \<and>
            (description b = JUndefined \<longrightarrow>
               row_description (rows (snd (put_task rd i b None s)) ! k) = SNull) \<and>
            (completed b = JUndefined \<longrightarrow>
               row_completed (rows (snd (put_task rd i b None s)) ! k) = SNull)) \<and>
         (title b = JUndefined \<or> title b = JNull \<longrightarrow>
            put_task rd i b None s = (\<lparr>status = 500, payload = Error not_null_title\<rparr>, s))"
proof -
  have mem: "rows s ! k \<in> set (rows s)"
    using assms(1) by simp
  show ?thesis
  proof (cases "text_affinity (bind (title b)) = SNull")
    case True
    then have "put_task rd i b None s = (\<lparr>status = 500, payload = Error not_null_title\<rparr>, s)"
      using put_task_null_title [OF mem assms(2)] by simp
    moreover from True have "title b = JUndefined \<or> title b = JNull"
      by (simp add: text_affinity_bind_null)
    ultimately show ?thesis by auto
  next
    case False
    then have nn: "title b \<noteq> JUndefined \<and> title b \<noteq> JNull"
      by (simp add: text_affinity_bind_null)
    note put = put_task_ok [OF mem assms(2) False]
    show ?thesis
      using nn assms by (simp add: put)
  qed
qed

theorem update_full_replace_witness:
  "fst (put_task sample_reader ''3'' \<lparr>title = JStr ''Call mum'', description = JUndefined, completed = JBool True\<rparr>
          None two_tasks) =
     \<lparr>status = 200, payload = Echo (IdStr ''3'') (JStr ''Call mum'') JUndefined (JBool True)\<rparr> \<and>
   rows (snd (put_task sample_reader ''3''
            \<lparr>title = JStr ''Call mum'', description = JUndefined, completed = JBool True\<rparr>
            None two_tasks)) ! 1 =
     \<lparr>row_id = 3, row_title = SText ''Call mum'', row_description = SNull,
      row_completed = SInt 1\<rparr> \<and>
   put_task sample_reader ''3'' \<lparr>title = JNull, description = JUndefined, completed = JBool True\<rparr> None two_tasks =
     (\<lparr>status = 500, payload = Error not_null_title\<rparr>, two_tasks)"
proof -
  have k: "(1::nat) < length (rows two_tasks)"
    by (simp add: two_tasks_def)
  have h: "id_eq sample_reader (row_id (rows two_tasks ! 1)) (PText ''3'')"
    by code_simp
  have r: "row_id (rows two_tasks ! Suc 0) = 3"
    by (simp add: two_tasks_def)
  from update_full_replace [OF k h,
      of "\<lparr>title = JStr ''Call mum'', description = JUndefined, completed = JBool True\<rparr>"]
    update_full_replace [OF k h,
      of "\<lparr>title = JNull, description = JUndefined, completed = JBool True\<rparr>"]
  show ?thesis by (simp add: r)
qed

text \<open>
  C10. Whatever the request, whatever the storage does and whatever the engine's reader
  makes of the path, an update leaves the list of stored ids and the counter as they
  were, and leaves every row whose id the engine does not find equal to the path
  exactly as it was: it adds no row, removes none and renumbers none.
\<close>

theorem update_frame:
  "map row_id (rows (snd (put_task rd i b fault s))) = map row_id (rows s) \<and>
   seq (snd (put_task rd i b fault s)) = seq s \<and>
   (\<forall>k < length (rows s).
      \<not> id_eq rd (row_id (rows s ! k)) (PText i) \<longrightarrow>
      rows (snd (put_task rd i b fault s)) ! k = rows s ! k)"
proof -
  let ?f = "\<lambda>x. if id_eq rd (row_id x) (PText i)
                 then x\<lparr>row_title := text_affinity (bind (title b)),
                        row_description := text_affinity (bind (description b)),
                        row_completed := numeric_affinity rd (bind (completed b))\<rparr>
                 else x"
  have keep: "map row_id (map ?f (rows s)) = map row_id (rows s)"
    by (induction "rows s") auto
  from put_task_cases [where i = i and b = b and fault = fault and s = s and rd = rd] show ?thesis
  proof
    assume "snd (put_task rd i b fault s) = s"
    then show ?thesis by simp
  next
    assume "snd (put_task rd i b fault s) = s\<lparr>rows := map ?f (rows s)\<rparr>"
    then show ?thesis using keep by simp
  qed
qed

theorem update_frame_witness:
  "map row_id (rows (snd (put_task sample_reader ''3'' milk None two_tasks))) = [1, 3] \<and>
   seq (snd (put_task sample_reader ''3'' milk None two_tasks)) = 3 \<and>
   \<not> id_eq sample_reader (row_id (rows two_tasks ! 0)) (PText ''3'') \<and>
   rows (snd (put_task sample_reader ''3'' milk None two_tasks)) ! 0 =
     \<lparr>row_id = 1, row_title = SText ''Buy milk'', row_description = SText ''2%'',
      row_completed = SInt 0\<rparr>"
proof -
  have h: "\<not> id_eq sample_reader (row_id (rows two_tasks ! 0)) (PText ''3'')"
    by code_simp
  have l: "(0::nat) < length (rows two_tasks)" "map row_id (rows two_tasks) = [1, 3]"
    "seq two_tasks = 3"
    "rows two_tasks ! 0 = \<lparr>row_id = 1, row_title = SText ''Buy milk'',
       row_description = SText ''2%'', row_completed = SInt 0\<rparr>"
    by (simp_all add: two_tasks_def)
  have i: "int_literal ''3'' = Some 3"
    by code_simp
  from update_frame [where i = "''3''" and b = milk and fault = None and s = two_tasks
      and rd = sample_reader] h l
  show ?thesis by (auto simp: i)
qed

section \<open>Ids over sequences of requests\<close>

lemma wf_db_init: "wf_db init_db"
  by (simp add: wf_db_def init_db_def)

lemma snd_get_tasks: "snd (get_tasks fault s) = s"
  by (cases fault) (simp_all add: get_tasks_def db_all_def)

lemma snd_get_task: "snd (get_task rd i fault s) = s"
  by (cases fault) (simp_all add: get_task_def db_get_def split: option.split)

lemma post_tasks_cases:
  "(snd (post_tasks rd b fault s) = s \<and> new_id (POST_tasks b) (fst (post_tasks rd b fault s)) = []) \<or>
   (snd (post_tasks rd b fault s) =
      \<lparr>rows = rows s @
         [\<lparr>row_id = next_rowid s,
           row_title = text_affinity (bind (title b)),
           row_description = text_affinity (bind (description b)),
           row_completed = SInt 0\<rparr>],
       seq = next_rowid s\<rparr> \<and>
    new_id (POST_tasks b) (fst (post_tasks rd b fault s)) = [next_rowid s])"
  by (cases fault) (simp_all add: post_tasks_def db_run_insert_def)

lemma delete_task_cases:
  "snd (delete_task rd i fault s) = s \<or>
   snd (delete_task rd i fault s) =
     s\<lparr>rows := filter (\<lambda>r. \<not> id_eq rd (row_id r) (PText i)) (rows s)\<rparr>"
  by (cases fault) (simp_all add: delete_task_def db_run_delete_def)

lemma wf_db_insert:
  assumes "wf_db s"
  shows "wf_db \<lparr>rows = rows s @ [\<lparr>row_id = next_rowid s, row_title = t, row_description = d,
                                  row_completed = c\<rparr>],
                seq = next_rowid s\<rparr>"
proof -
  have fresh: "next_rowid s \<notin> set (map row_id (rows s))"
    using row_id_less_next [of _ s] by fastforce
  have below: "\<forall>r \<in> set (rows s). row_id r \<le> next_rowid s"
    using row_id_less_next [of _ s] by fastforce
  from assms fresh below show ?thesis
    by (simp add: wf_db_def)
qed

lemma wf_db_update:
  assumes "wf_db s" and "\<And>r. row_id (f r) = row_id r"
  shows "wf_db (s\<lparr>rows := map f (rows s)\<rparr>)"
proof -
  have "row_id \<circ> f = row_id"
    using assms(2) by (simp add: fun_eq_iff)
  with assms show ?thesis
    by (simp add: wf_db_def)
qed

lemma wf_db_delete:
  assumes "wf_db s"
  shows "wf_db (s\<lparr>rows := filter P (rows s)\<rparr>)"
  using assms by (simp add: wf_db_def distinct_map_filter)

lemma handle_step:
  assumes "wf_db s"
  shows "wf_db (snd (handle rd rq fault s)) \<and>
         seq s \<le> seq (snd (handle rd rq fault s)) \<and>
         (\<forall>n \<in> set (new_id rq (fst (handle rd rq fault s))).
            seq s < n \<and> n \<le> seq (snd (handle rd rq fault s)))"
proof (cases rq)
  case GET_tasks
  with assms show ?thesis by (simp add: snd_get_tasks)
next
  case (POST_tasks b)
  from post_tasks_cases [where b = b and fault = fault and s = s and rd = rd] show ?thesis
  proof (elim disjE conjE)
    assume "snd (post_tasks rd b fault s) = s"
      and "new_id (POST_tasks b) (fst (post_tasks rd b fault s)) = []"
    with assms POST_tasks show ?thesis by simp
  next
    assume s': "snd (post_tasks rd b fault s) =
        \<lparr>rows = rows s @
           [\<lparr>row_id = next_rowid s,
             row_title = text_affinity (bind (title b)),
             row_description = text_affinity (bind (description b)),
             row_completed = SInt 0\<rparr>],
         seq = next_rowid s\<rparr>"
      and n: "new_id (POST_tasks b) (fst (post_tasks rd b fault s)) = [next_rowid s]"
    have "wf_db (snd (post_tasks rd b fault s))"
      unfolding s' using assms by (rule wf_db_insert)
    moreover have "seq s < next_rowid s"
      by (rule seq_less_next)
    ultimately show ?thesis
      using POST_tasks n s' by simp
  qed
next
  case (GET_task i)
  with assms show ?thesis by (simp add: snd_get_task)
next
  case (PUT_task i b)
  from put_task_cases [where i = i and b = b and fault = fault and s = s and rd = rd] show ?thesis
  proof
    assume "snd (put_task rd i b fault s) = s"
    with assms PUT_task show ?thesis by simp
  next
    let ?f = "\<lambda>r. if id_eq rd (row_id r) (PText i)
                 then r\<lparr>row_title := text_affinity (bind (title b)),
                        row_description := text_affinity (bind (description b)),
                        row_completed := numeric_affinity rd (bind (completed b))\<rparr>
                 else r"
    assume s': "snd (put_task rd i b fault s) = s\<lparr>rows := map ?f (rows s)\<rparr>"
    have "wf_db (s\<lparr>rows := map ?f (rows s)\<rparr>)"
      using assms by (rule wf_db_update) simp
    with PUT_task s' show ?thesis by simp
  qed
next
  case (DELETE_task i)
  from delete_task_cases [where i = i and fault = fault and s = s and rd = rd] show ?thesis
  proof
    assume "snd (delete_task rd i fault s) = s"
    with assms DELETE_task show ?thesis by simp
  next
    assume s': "snd (delete_task rd i fault s) =
        s\<lparr>rows := filter (\<lambda>r. \<not> id_eq rd (row_id r) (PText i)) (rows s)\<rparr>"
    have "wf_db (s\<lparr>rows := filter (\<lambda>r. \<not> id_eq rd (row_id r) (PText i)) (rows s)\<rparr>)"
      using assms by (rule wf_db_delete)
    with DELETE_task s' show ?thesis by simp
  qed
qed

lemma new_id_from_rows:
  "set (map row_id (rows (snd (handle rd rq fault s)))) \<subseteq>
     set (map row_id (rows s)) \<union> set (new_id rq (fst (handle rd rq fault s)))"
proof (cases rq)
  case GET_tasks
  then show ?thesis by (simp add: snd_get_tasks)
next
  case (POST_tasks b)
  from post_tasks_cases [where b = b and fault = fault and s = s and rd = rd] show ?thesis
    unfolding POST_tasks handle.simps by (auto simp del: new_id.simps)
next
  case (GET_task i)
  then show ?thesis by (simp add: snd_get_task)
next
  case (PUT_task i b)
  with put_task_cases [where i = i and b = b and fault = fault and s = s and rd = rd] show ?thesis by auto
next
  case (DELETE_task i)
  with delete_task_cases [where i = i and fault = fault and s = s and rd = rd] show ?thesis by auto
qed

lemma run_ids:
  "wf_db s \<Longrightarrow>
   wf_db (final rd ops s) \<and> seq s \<le> seq (final rd ops s) \<and>
   sorted_wrt (<) (created_ids rd ops s) \<and>
   (\<forall>n \<in> set (created_ids rd ops s). seq s < n \<and> n \<le> seq (final rd ops s))"
proof (induction ops arbitrary: s)
  case Nil
  then show ?case by simp
next
  case (Cons op ops)
  obtain rq fault where op: "op = (rq, fault)"
    by (cases op)
  let ?s' = "snd (handle rd rq fault s)"
  note st = handle_step [OF Cons.prems, where rq = rq and fault = fault and rd = rd]
  then have wf': "wf_db ?s'" by simp
  note ih = Cons.IH [OF wf']
  have mono: "seq s \<le> seq (final rd ops ?s')"
    using st ih by linarith
  have first_small: "\<forall>n \<in> set (new_id rq (fst (handle rd rq fault s))).
      \<forall>m \<in> set (created_ids rd ops ?s'). n < m"
    using st ih by fastforce
  have bounds: "\<forall>n \<in> set (new_id rq (fst (handle rd rq fault s)) @ created_ids rd ops ?s').
      seq s < n \<and> n \<le> seq (final rd ops ?s')"
    using st ih by fastforce
  have sorted_first: "sorted_wrt (<) (new_id rq (fst (handle rd rq fault s)))"
    by (cases rq) (auto split: payload.split idval.split)
  have "sorted_wrt (<) (new_id rq (fst (handle rd rq fault s)) @ created_ids rd ops ?s')"
    using sorted_first ih first_small by (simp add: sorted_wrt_append)
  with ih mono bounds op show ?case by simp
qed

lemma run_rows:
  "set (map row_id (rows (final rd ops s))) \<subseteq> set (map row_id (rows s)) \<union> set (created_ids rd ops s)"
proof (induction ops arbitrary: s)
  case Nil
  show ?case by simp
next
  case (Cons op ops)
  obtain rq fault where op: "op = (rq, fault)"
    by (cases op)
  from Cons.IH [of "snd (handle rd rq fault s)"] new_id_from_rows [where rq = rq and fault = fault and s = s and rd = rd] op
  show ?case by auto
qed


text \<open>
  C8. Take any store in which no two rows share an id and no id is above the counter
  (the empty store is one), and any sequence of requests with any storage outcomes.
  Afterwards the store is again such a store: ids are unique. The ids announced by the
  successful creates are strictly increasing, and each is above the counter the sequence
  started from, hence above every id the table held or had ever held, deleted ones
  included: no create reuses an id. Every id in the table at the end was there at the
  start or was announced by a create of the sequence, and an update leaves the list of
  stored ids as it is.
\<close>

theorem ids_unique_increasing:
  assumes "wf_db s"
  shows "wf_db (final rd ops s) \<and>
         distinct (map row_id (rows (final rd ops s))) \<and>
         sorted_wrt (<) (created_ids rd ops s) \<and>
         (\<forall>n \<in> set (created_ids rd ops s).
            seq s < n \<and> n \<le> seq (final rd ops s) \<and> n \<notin> set (map row_id (rows s))) \<and>
         set (map row_id (rows (final rd ops s))) \<subseteq>
           set (map row_id (rows s)) \<union> set (created_ids rd ops s) \<and>
         map row_id (rows (snd (handle rd (PUT_task i b) fault s))) = map row_id (rows s)"
proof -
  note r = run_ids [OF assms, where ops = ops and rd = rd]
  have old: "\<forall>x \<in> set (map row_id (rows s)). x \<le> seq s"
    using assms by (simp add: wf_db_def)
  have fresh: "\<forall>n \<in> set (created_ids rd ops s). n \<notin> set (map row_id (rows s))"
    using r old by fastforce
  have d: "distinct (map row_id (rows (final rd ops s)))"
    using r by (simp add: wf_db_def)
  let ?f = "\<lambda>x. if id_eq rd (row_id x) (PText i)
                 then x\<lparr>row_title := text_affinity (bind (title b)),
                        row_description := text_affinity (bind (description b)),
                        row_completed := numeric_affinity rd (bind (completed b))\<rparr>
                 else x"
  have "map row_id (map ?f (rows s)) = map row_id (rows s)"
    by (induction "rows s") auto
  with put_task_cases [where i = i and b = b and fault = fault and s = s and rd = rd]
  have u: "map row_id (rows (snd (handle rd (PUT_task i b) fault s))) = map row_id (rows s)"
    by auto
  show ?thesis
    using r fresh d u run_rows [where ops = ops and s = s and rd = rd] by simp
qed

theorem ids_unique_increasing_witness:
  "wf_db (final sample_reader session init_db) \<and>
   created_ids sample_reader session init_db = [1, 2, 3] \<and>
   sorted_wrt (<) (created_ids sample_reader session init_db) \<and>
   map row_id (rows (final sample_reader session init_db)) = [1, 3] \<and>
   distinct (map row_id (rows (final sample_reader session init_db))) \<and>
   seq (final sample_reader session init_db) = 3"
proof -
  have c: "created_ids sample_reader session init_db = [1, 2, 3]"
    by code_simp
  have f: "map row_id (rows (final sample_reader session init_db)) = [1, 3]"
    by code_simp
  have q: "seq (final sample_reader session init_db) = 3"
    by code_simp
  from ids_unique_increasing [OF wf_db_init, where ops = session and rd = sample_reader] c f q
  show ?thesis by simp
qed

end
